theory Spec2Isabelle
  imports Complex_Main "HOL-Library.AList" "HOL-Library.Log_Nat"
begin

section \<open>Data model (src/lib/storage.ts)\<close>

text \<open>
  The application keeps all of its state in the browser's \<^verbatim>\<open>localStorage\<close> and in the
  state of its React components. Every function of the source that reads or writes
  \<^verbatim>\<open>localStorage\<close> is modelled as a function that takes the store and returns the new one
  (with its result, when it has one). Readings of the clock (\<^verbatim>\<open>Date.now()\<close>,
  \<^verbatim>\<open>new Date().toISOString()\<close>) are arguments of the function that makes them.

  A JavaScript number that holds a weight is a \<^typ>\<open>rat\<close> (every finite double is a
  rational), a number that holds a count is an \<^typ>\<open>int\<close>. Where the program computes
  with such numbers (the one-rep max), the arithmetic is that of the doubles, below.
\<close>

text \<open>
  The current-day index of a split is the one number of the program that can leave the
  integers: \<^verbatim>\<open>x % 0\<close> is \<^verbatim>\<open>NaN\<close>, which \<^verbatim>\<open>JSON.stringify\<close> writes as \<^verbatim>\<open>null\<close>.
\<close>

datatype jsnum = Num int | NaN | Null

record Exercise =
  e_id :: string
  e_name :: string
  e_sets :: int

record WorkoutTemplate =
  t_id :: string
  t_name :: string
  t_exercises :: "Exercise list"

record WorkoutSplit =
  s_id :: string
  s_name :: string
  days :: "string list"
  currentDay :: jsnum
  lastWorkoutDate :: "string option"

record SessionSet =
  weight :: rat
  reps :: int
  completed :: bool

record SessionExercise =
  se_exerciseId :: string
  se_name :: string
  se_sets :: "SessionSet list"

record WorkoutSession =
  ws_id :: string
  ws_date :: string
  ws_workoutType :: string
  ws_exercises :: "SessionExercise list"
  ws_completed :: bool

text \<open>The object \<^verbatim>\<open>{ weight, reps, date }\<close> that \<^verbatim>\<open>saveWorkoutSession\<close> writes.\<close>

record HistoryEntry =
  h_weight :: rat
  h_reps :: int
  h_date :: string

text \<open>The wrapper \<^verbatim>\<open>{ data, timestamp }\<close> of an auto-save slot.\<close>

record 'd AutoSaved =
  as_data :: 'd
  as_timestamp :: int

text \<open>
  \<^verbatim>\<open>localStorage\<close> is one namespace of string keys. The program uses six fixed keys
  (\<^verbatim>\<open>workoutTemplates\<close>, \<^verbatim>\<open>workoutSplits\<close>, \<^verbatim>\<open>activeSplit\<close>, \<^verbatim>\<open>workoutSplit\<close>,
  \<^verbatim>\<open>workoutSessions\<close>, \<^verbatim>\<open>workoutStreak\<close>) and three families of keys, told apart by
  their prefix (\<^verbatim>\<open>exercise-<name>\<close>, \<^verbatim>\<open>lastWorkout-<name>\<close>, \<^verbatim>\<open>autosave-<key>\<close>). The
  store is a record with one field for each fixed key, \<open>None\<close> when the key is absent,
  and one map for each family, from the part of the key after the prefix. The values are
  the parsed ones: what \<^verbatim>\<open>JSON.parse\<close> gives back for what \<^verbatim>\<open>JSON.stringify\<close> wrote.
  The streak is stored as the decimal string of an integer and read with
  \<^verbatim>\<open>parseInt\<close>; the field holds the integer. A template mapping is a JavaScript object;
  it is an association list in insertion order, and a lookup in it is a lookup of an own
  property.
\<close>

record 'd store =
  workoutTemplates :: "(string \<times> WorkoutTemplate) list option"
  workoutSplits :: "WorkoutSplit list option"
  activeSplit :: "string option"
  workoutSplit :: "WorkoutSplit option"
  workoutSessions :: "WorkoutSession list option"
  workoutStreak :: "int option"
  exercise :: "string \<rightharpoonup> HistoryEntry"
  lastWorkout :: "string \<rightharpoonup> HistoryEntry"
  autosave :: "string \<rightharpoonup> 'd AutoSaved"

text \<open>The keys as the source spells them; \<open>fixed_keys_apart\<close> below shows that they never collide.\<close>

definition exercise_key :: "string \<Rightarrow> string" where
  "exercise_key exerciseName = ''exercise-'' @ exerciseName"

definition lastWorkout_key :: "string \<Rightarrow> string" where
  "lastWorkout_key exerciseName = ''lastWorkout-'' @ exerciseName"

definition autosave_key :: "string \<Rightarrow> string" where
  "autosave_key key = ''autosave-'' @ key"

definition fixed_keys :: "string list" where
  "fixed_keys = [''workoutTemplates'', ''workoutSplits'', ''activeSplit'', ''workoutSplit'',
     ''workoutSessions'', ''workoutStreak'']"

definition empty_store :: "'d store" where
  "empty_store = \<lparr> workoutTemplates = None, workoutSplits = None, activeSplit = None,
     workoutSplit = None, workoutSessions = None, workoutStreak = None,
     exercise = Map.empty, lastWorkout = Map.empty, autosave = Map.empty \<rparr>"

subsection \<open>JavaScript helpers\<close>

text \<open>A string is truthy when it is not empty.\<close>

definition truthy :: "string option \<Rightarrow> bool" where
  "truthy v = (case v of None \<Rightarrow> False | Some s \<Rightarrow> s \<noteq> [])"

text \<open>\<^verbatim>\<open>Array.prototype.find\<close> and \<^verbatim>\<open>findIndex\<close>; \<open>None\<close> is \<^verbatim>\<open>undefined\<close> and \<^verbatim>\<open>-1\<close>.\<close>

fun findIndex :: "('a \<Rightarrow> bool) \<Rightarrow> 'a list \<Rightarrow> nat option" where
  "findIndex P [] = None"
| "findIndex P (x # xs) =
     (if P x then Some 0 else (case findIndex P xs of None \<Rightarrow> None | Some i \<Rightarrow> Some (Suc i)))"

text \<open>The remainder \<^verbatim>\<open>a % n\<close> on integers with \<open>n > 0\<close>: it has the sign of \<open>a\<close>.\<close>

definition js_rem :: "int \<Rightarrow> int \<Rightarrow> int" where
  "js_rem a n = (if 0 \<le> a then a mod n else - ((- a) mod n))"

text \<open>
  The expression \<^verbatim>\<open>(split.currentDay + 1) % split.days.length\<close>, which \<^verbatim>\<open>skipDay\<close>,
  \<^verbatim>\<open>saveWorkout\<close> and \<^verbatim>\<open>handleCompleteWorkout\<close> each write out. \<^verbatim>\<open>null + 1\<close> is 1.
\<close>

definition next_day :: "WorkoutSplit \<Rightarrow> jsnum" where
  "next_day split =
     (case currentDay split of
        NaN \<Rightarrow> NaN
      | Num c \<Rightarrow> if length (days split) = 0 then NaN
                 else Num (js_rem (c + 1) (int (length (days split))))
      | Null \<Rightarrow> if length (days split) = 0 then NaN
                else Num (js_rem 1 (int (length (days split)))))"

text \<open>What \<^verbatim>\<open>JSON.parse (JSON.stringify split)\<close> gives: \<^verbatim>\<open>NaN\<close> comes back as \<^verbatim>\<open>null\<close>.\<close>

definition json_split :: "WorkoutSplit \<Rightarrow> WorkoutSplit" where
  "json_split split =
     (case currentDay split of NaN \<Rightarrow> split\<lparr>currentDay := Null\<rparr> | _ \<Rightarrow> split)"

subsection \<open>Double-precision arithmetic\<close>

text \<open>
  A JavaScript number is an IEEE 754 binary64 value: a finite one is a rational, and
  every operation gives the double nearest to the exact result, a tie going to the even
  significand. The two zeros are not told apart: none of the computations modelled
  divides by a zero or shows its sign.
\<close>

datatype double = Finite rat | PlusInfinity | MinusInfinity | NotANumber

definition two_pow :: "int \<Rightarrow> rat" where
  "two_pow k = (if 0 \<le> k then 2 ^ nat k else 1 / 2 ^ nat (- k))"

text \<open>The integer \<open>l\<close> with \<open>2\<^sup>l \<le> a < 2\<^sup>l\<^sup>+\<^sup>1\<close>, for \<open>a > 0\<close>.\<close>

definition floor_log2 :: "rat \<Rightarrow> int" where
  "floor_log2 a = (if 1 \<le> a then bitlen \<lfloor>a\<rfloor> - 1 else - bitlen (\<lceil>1 / a\<rceil> - 1))"

definition round_half_even :: "rat \<Rightarrow> int" where
  "round_half_even y =
     (let f = \<lfloor>y\<rfloor>; d = y - of_int f
      in if d < 1 / 2 then f else if 1 / 2 < d then f + 1 else if even f then f else f + 1)"

text \<open>
  The double nearest to a rational: 53 significant bits, the exponent \<open>e\<close> of the last
  bit not below -1074 (the subnormal numbers), and infinity from \<open>2\<^sup>1\<^sup>0\<^sup>2\<^sup>4\<close> on (which
  takes \<open>e > 970\<close>, the significand being \<open>2\<^sup>5\<^sup>3\<close> at most). A rational that is a double
  is its own nearest double.
\<close>

definition to_double :: "rat \<Rightarrow> double" where
  "to_double x =
     (if x = 0 then Finite 0
      else let a = \<bar>x\<bar>;
               e = max (floor_log2 a - 52) (- 1074);
               r = of_int (round_half_even (a / two_pow e)) * two_pow e
           in if e \<le> 970 then Finite (if 0 < x then r else - r)
              else if two_pow 1024 \<le> r then (if 0 < x then PlusInfinity else MinusInfinity)
              else Finite (if 0 < x then r else - r))"

fun dneg :: "double \<Rightarrow> double" where
  "dneg (Finite a) = Finite (- a)"
| "dneg PlusInfinity = MinusInfinity"
| "dneg MinusInfinity = PlusInfinity"
| "dneg NotANumber = NotANumber"

fun dadd :: "double \<Rightarrow> double \<Rightarrow> double" where
  "dadd NotANumber y = NotANumber"
| "dadd x NotANumber = NotANumber"
| "dadd (Finite a) (Finite b) = to_double (a + b)"
| "dadd (Finite a) y = y"
| "dadd x (Finite b) = x"
| "dadd x y = (if x = y then x else NotANumber)"


fun dmul :: "double \<Rightarrow> double \<Rightarrow> double" where
  "dmul NotANumber y = NotANumber"
| "dmul x NotANumber = NotANumber"
| "dmul (Finite a) (Finite b) = to_double (a * b)"
| "dmul (Finite a) y = (if a = 0 then NotANumber else if 0 < a then y else dneg y)"
| "dmul x (Finite b) = (if b = 0 then NotANumber else if 0 < b then x else dneg x)"
| "dmul x y = (if x = y then PlusInfinity else MinusInfinity)"

text \<open>Division; a zero divisor counts as the positive zero.\<close>

fun ddiv :: "double \<Rightarrow> double \<Rightarrow> double" where
  "ddiv NotANumber y = NotANumber"
| "ddiv x NotANumber = NotANumber"
| "ddiv (Finite a) (Finite b) =
     (if b = 0 then (if a = 0 then NotANumber else if 0 < a then PlusInfinity else MinusInfinity)
      else to_double (a / b))"
| "ddiv (Finite a) y = Finite 0"
| "ddiv x (Finite b) = (if 0 \<le> b then x else dneg x)"
| "ddiv x y = NotANumber"

text \<open>Whether a double is greater than zero, as a sort comparator's result is read.\<close>

fun positive :: "double \<Rightarrow> bool" where
  "positive (Finite a) = (0 < a)"
| "positive PlusInfinity = True"
| "positive MinusInfinity = False"
| "positive NotANumber = False"

text \<open>
  \<^verbatim>\<open>Math.round\<close> gives the nearest integer, a tie towards plus infinity. It is exact: a
  double of magnitude \<open>2\<^sup>5\<^sup>2\<close> or more is an integer already.
\<close>

fun Math_round :: "double \<Rightarrow> double" where
  "Math_round (Finite x) = Finite (of_int \<lfloor>x + 1 / 2\<rfloor>)"
| "Math_round x = x"

text \<open>
  \<^verbatim>\<open>Array.prototype.sort\<close> with a comparator is a stable sort: \<open>x\<close> goes behind \<open>y\<close> only
  when the comparator's result for \<open>x\<close> and \<open>y\<close> is greater than zero. (When the
  comparator is not consistent, as with a \<^verbatim>\<open>NaN\<close> among the keys, the language leaves the
  order to the implementation; this is then one of the orders it allows.)
\<close>

fun insert_by :: "('a \<Rightarrow> 'a \<Rightarrow> double) \<Rightarrow> 'a \<Rightarrow> 'a list \<Rightarrow> 'a list" where
  "insert_by c x [] = [x]"
| "insert_by c x (y # ys) = (if positive (c x y) then y # insert_by c x ys else x # y # ys)"

definition sort_by :: "('a \<Rightarrow> 'a \<Rightarrow> double) \<Rightarrow> 'a list \<Rightarrow> 'a list" where
  "sort_by c xs = foldr (insert_by c) xs []"

section \<open>The storage utility (class WorkoutStorage of src/lib/storage.ts)\<close>

subsection \<open>Workout templates\<close>

definition mk_exercise :: "string \<Rightarrow> string \<Rightarrow> int \<Rightarrow> Exercise" where
  "mk_exercise i n k = \<lparr> e_id = i, e_name = n, e_sets = k \<rparr>"

definition defaultTemplates :: "(string \<times> WorkoutTemplate) list" where
  "defaultTemplates =
   [(''Push'', \<lparr> t_id = ''push'', t_name = ''Push'', t_exercises =
       [mk_exercise ''bench-press'' ''Bench Press'' 4,
        mk_exercise ''overhead-press'' ''Overhead Press'' 3,
        mk_exercise ''incline-db-press'' ''Incline Dumbbell Press'' 3,
        mk_exercise ''tricep-dips'' ''Tricep Dips'' 3,
        mk_exercise ''lateral-raises'' ''Lateral Raises'' 3] \<rparr>),
    (''Pull'', \<lparr> t_id = ''pull'', t_name = ''Pull'', t_exercises =
       [mk_exercise ''deadlift'' ''Deadlift'' 4,
        mk_exercise ''pull-ups'' ''Pull-ups'' 3,
        mk_exercise ''barbell-rows'' ''Barbell Rows'' 3,
        mk_exercise ''face-pulls'' ''Face Pulls'' 3,
        mk_exercise ''bicep-curls'' ''Bicep Curls'' 3] \<rparr>),
    (''Legs'', \<lparr> t_id = ''legs'', t_name = ''Legs'', t_exercises =
       [mk_exercise ''squats'' ''Squats'' 4,
        mk_exercise ''romanian-deadlift'' ''Romanian Deadlift'' 3,
        mk_exercise ''bulgarian-split-squats'' ''Bulgarian Split Squats'' 3,
        mk_exercise ''calf-raises'' ''Calf Raises'' 3,
        mk_exercise ''walking-lunges'' ''Walking Lunges'' 3] \<rparr>),
    (''Upper'', \<lparr> t_id = ''upper'', t_name = ''Upper'', t_exercises =
       [mk_exercise ''bench-press'' ''Bench Press'' 4,
        mk_exercise ''pull-ups'' ''Pull-ups'' 3,
        mk_exercise ''overhead-press'' ''Overhead Press'' 3,
        mk_exercise ''barbell-rows'' ''Barbell Rows'' 3,
        mk_exercise ''dips'' ''Dips'' 3] \<rparr>),
    (''Lower'', \<lparr> t_id = ''lower'', t_name = ''Lower'', t_exercises =
       [mk_exercise ''squats'' ''Squats'' 4,
        mk_exercise ''deadlift'' ''Deadlift'' 4,
        mk_exercise ''lunges'' ''Lunges'' 3,
        mk_exercise ''leg-press'' ''Leg Press'' 3,
        mk_exercise ''calf-raises'' ''Calf Raises'' 3] \<rparr>),
    (''Full Body'', \<lparr> t_id = ''full-body'', t_name = ''Full Body'', t_exercises =
       [mk_exercise ''squats'' ''Squats'' 3,
        mk_exercise ''bench-press'' ''Bench Press'' 3,
        mk_exercise ''pull-ups'' ''Pull-ups'' 3,
        mk_exercise ''overhead-press'' ''Overhead Press'' 3,
        mk_exercise ''deadlift'' ''Deadlift'' 3] \<rparr>)]"

definition saveWorkoutTemplates :: "(string \<times> WorkoutTemplate) list \<Rightarrow> 'd store \<Rightarrow> 'd store" where
  "saveWorkoutTemplates templates st = st\<lparr>workoutTemplates := Some templates\<rparr>"

text \<open>The stored mapping, or the default one, which it then stores.\<close>

definition getWorkoutTemplates :: "'d store \<Rightarrow> (string \<times> WorkoutTemplate) list \<times> 'd store" where
  "getWorkoutTemplates st =
     (case workoutTemplates st of
        Some templates \<Rightarrow> (templates, st)
      | None \<Rightarrow> (defaultTemplates, saveWorkoutTemplates defaultTemplates st))"

definition getWorkoutTemplate :: "string \<Rightarrow> 'd store \<Rightarrow> WorkoutTemplate option \<times> 'd store" where
  "getWorkoutTemplate workoutType st =
     (let (templates, st1) = getWorkoutTemplates st
      in (map_of templates workoutType, st1))"

definition updateWorkoutTemplate :: "string \<Rightarrow> WorkoutTemplate \<Rightarrow> 'd store \<Rightarrow> 'd store" where
  "updateWorkoutTemplate workoutType template st =
     (let (templates, st1) = getWorkoutTemplates st
      in saveWorkoutTemplates (AList.update workoutType template templates) st1)"

subsection \<open>Exercise history\<close>

definition getExerciseHistory :: "string \<Rightarrow> 'd store \<Rightarrow> HistoryEntry option" where
  "getExerciseHistory exerciseName st = exercise st exerciseName"

definition saveExerciseHistory :: "string \<Rightarrow> HistoryEntry \<Rightarrow> 'd store \<Rightarrow> 'd store" where
  "saveExerciseHistory exerciseName data st =
     st\<lparr>exercise := (exercise st)(exerciseName \<mapsto> data)\<rparr>"

subsection \<open>Workout sessions\<close>

definition getWorkoutSessions :: "'d store \<Rightarrow> WorkoutSession list" where
  "getWorkoutSessions st = (case workoutSessions st of Some sessions \<Rightarrow> sessions | None \<Rightarrow> [])"

text \<open>The inner and the outer \<^verbatim>\<open>forEach\<close> of \<^verbatim>\<open>saveWorkoutSession\<close>.\<close>

definition record_set :: "string \<Rightarrow> string \<Rightarrow> SessionSet \<Rightarrow> 'd store \<Rightarrow> 'd store" where
  "record_set date exerciseName s st =
     (if completed s
      then saveExerciseHistory exerciseName
             \<lparr> h_weight = weight s, h_reps = reps s, h_date = date \<rparr> st
      else st)"

definition record_exercise :: "string \<Rightarrow> SessionExercise \<Rightarrow> 'd store \<Rightarrow> 'd store" where
  "record_exercise date ex st = fold (record_set date (se_name ex)) (se_sets ex) st"

definition saveWorkoutSession :: "WorkoutSession \<Rightarrow> 'd store \<Rightarrow> 'd store" where
  "saveWorkoutSession session st =
     (let sessions = getWorkoutSessions st;
          sessions1 = (case findIndex (\<lambda>s. ws_id s = ws_id session) sessions of
                         Some existingIndex \<Rightarrow> sessions[existingIndex := session]
                       | None \<Rightarrow> sessions @ [session]);
          st1 = st\<lparr>workoutSessions := Some sessions1\<rparr>
      in fold (record_exercise (ws_date session)) (ws_exercises session) st1)"

subsection \<open>Workout splits\<close>

definition defaultSplits :: "WorkoutSplit list" where
  "defaultSplits =
   [\<lparr> s_id = ''1'', s_name = ''Push/Pull/Legs'',
      days = [''Push'', ''Pull'', ''Legs'', ''Rest'', ''Push'', ''Pull'', ''Legs''],
      currentDay = Num 0, lastWorkoutDate = None \<rparr>,
    \<lparr> s_id = ''2'', s_name = ''Upper/Lower'',
      days = [''Upper'', ''Lower'', ''Rest'', ''Upper'', ''Lower'', ''Rest'', ''Rest''],
      currentDay = Num 0, lastWorkoutDate = None \<rparr>,
    \<lparr> s_id = ''3'', s_name = ''Full Body'',
      days = [''Full Body'', ''Rest'', ''Full Body'', ''Rest'', ''Full Body'', ''Rest'', ''Rest''],
      currentDay = Num 0, lastWorkoutDate = None \<rparr>]"

definition saveWorkoutSplits :: "WorkoutSplit list \<Rightarrow> 'd store \<Rightarrow> 'd store" where
  "saveWorkoutSplits splits st = st\<lparr>workoutSplits := Some (map json_split splits)\<rparr>"

definition getWorkoutSplits :: "'d store \<Rightarrow> WorkoutSplit list \<times> 'd store" where
  "getWorkoutSplits st =
     (case workoutSplits st of
        Some splits \<Rightarrow> (splits, st)
      | None \<Rightarrow> (defaultSplits, saveWorkoutSplits defaultSplits st))"

definition getActiveSplit :: "'d store \<Rightarrow> WorkoutSplit option \<times> 'd store" where
  "getActiveSplit st =
     (if truthy (activeSplit st)
      then (let (splits, st1) = getWorkoutSplits st
            in (find (\<lambda>s. Some (s_id s) = activeSplit st) splits, st1))
      else (None, st))"

definition setActiveSplit :: "string \<Rightarrow> 'd store \<Rightarrow> 'd store" where
  "setActiveSplit splitId st =
     (let st1 = st\<lparr>activeSplit := Some splitId\<rparr>;
          (splits, st2) = getWorkoutSplits st1
      in case find (\<lambda>s. s_id s = splitId) splits of
           Some split \<Rightarrow> st2\<lparr>workoutSplit := Some (json_split split)\<rparr>
         | None \<Rightarrow> st2)"

definition updateSplit :: "WorkoutSplit \<Rightarrow> 'd store \<Rightarrow> 'd store" where
  "updateSplit updatedSplit st =
     (let (splits, st1) = getWorkoutSplits st
      in case findIndex (\<lambda>s. s_id s = s_id updatedSplit) splits of
           Some index \<Rightarrow>
             (let st2 = saveWorkoutSplits (splits[index := updatedSplit]) st1
              in if activeSplit st2 = Some (s_id updatedSplit)
                 then st2\<lparr>workoutSplit := Some (json_split updatedSplit)\<rparr>
                 else st2)
         | None \<Rightarrow> st1)"

subsection \<open>Streak\<close>

definition getStreak :: "'d store \<Rightarrow> int" where
  "getStreak st = (case workoutStreak st of Some n \<Rightarrow> n | None \<Rightarrow> 0)"

definition updateStreak :: "'d store \<Rightarrow> 'd store" where
  "updateStreak st = st\<lparr>workoutStreak := Some (getStreak st + 1)\<rparr>"

subsection \<open>Auto-save\<close>

text \<open>The argument \<open>now\<close> is the reading of \<^verbatim>\<open>Date.now()\<close>, in milliseconds.\<close>

definition autoSave :: "string \<Rightarrow> 'd \<Rightarrow> int \<Rightarrow> 'd store \<Rightarrow> 'd store" where
  "autoSave key data now st =
     st\<lparr>autosave := (autosave st)(key \<mapsto> \<lparr> as_data = data, as_timestamp = now \<rparr>)\<rparr>"

definition getAutoSave :: "string \<Rightarrow> int \<Rightarrow> 'd store \<Rightarrow> 'd option" where
  "getAutoSave key now st =
     (case autosave st key of
        Some saved \<Rightarrow>
          if now - as_timestamp saved < 24 * 60 * 60 * 1000 then Some (as_data saved) else None
      | None \<Rightarrow> None)"

definition clearAutoSave :: "string \<Rightarrow> 'd store \<Rightarrow> 'd store" where
  "clearAutoSave key st = st\<lparr>autosave := (autosave st)(key := None)\<rparr>"

section \<open>The components\<close>

text \<open>
  A component is a record of its React state and its props; an event handler takes the
  component and the store and returns both, after every state update it queued has been
  applied. A handler also returns the toasts it shows (the title and whether the variant
  is \<^verbatim>\<open>destructive\<close>; the description is left out).
\<close>

datatype toast = Toast string bool

datatype js_error = TypeError

subsection \<open>WorkoutTracker\<close>

text \<open>
  The repository holds two versions of this component. The one modelled first is the
  version that goes through the storage utility. The older one, which writes
  \<^verbatim>\<open>localStorage\<close> itself, is the file src/components/WorkoutTracker.tsx that the page
  imports; its \<^verbatim>\<open>completeSet\<close> is the same but for the scheduled auto-save, and its
  \<^verbatim>\<open>saveWorkout\<close> follows as \<open>saveWorkout_v1\<close>.
\<close>

record TrackerSet = SessionSet +
  set_id :: string

record TrackerExercise =
  te_id :: string
  te_name :: string
  te_sets :: "TrackerSet list"
  defaultSets :: int
  lastWeight :: "rat option"
  lastReps :: "int option"

record tracker =
  workoutType :: string
  exercises :: "TrackerExercise list"
  currentExerciseIndex :: nat
  restTimer :: int
  isResting :: bool
  sessionId :: string

text \<open>
  What the components auto-save: the tracker saves
  \<^verbatim>\<open>{ exercises, currentExerciseIndex, sessionId }\<close> under \<^verbatim>\<open>workout-<type>\<close>, the exercise
  manager saves its template under \<^verbatim>\<open>exercise-manager-<type>\<close>.
\<close>

datatype payload =
  WorkoutProgress "TrackerExercise list" nat string
| TemplateDraft WorkoutTemplate

type_synonym app_store = "payload store"

text \<open>\<^verbatim>\<open>xs.map((x, i) => i === k ? f(x) : x)\<close>, the update that the handlers write out.\<close>

definition map_at :: "nat \<Rightarrow> ('a \<Rightarrow> 'a) \<Rightarrow> 'a list \<Rightarrow> 'a list" where
  "map_at k f xs = map (\<lambda>(i, x). if i = k then f x else x) (enumerate 0 xs)"

text \<open>
  \<^verbatim>\<open>completeSet\<close>. Reading \<^verbatim>\<open>exercise.sets\<close> or \<^verbatim>\<open>set.weight\<close> of \<^verbatim>\<open>undefined\<close> throws a
  \<^verbatim>\<open>TypeError\<close>. The second component of the result tells whether the handler has
  scheduled \<^verbatim>\<open>autoSaveWorkout\<close> (\<^verbatim>\<open>setTimeout(autoSaveWorkout, 100)\<close>).
\<close>

definition completeSet ::
  "nat \<Rightarrow> nat \<Rightarrow> tracker \<Rightarrow> js_error + (toast list \<times> bool \<times> tracker)" where
  "completeSet exerciseIndex setIndex tr =
     (if length (exercises tr) \<le> exerciseIndex then Inl TypeError
      else let ex = exercises tr ! exerciseIndex in
        if length (te_sets ex) \<le> setIndex then Inl TypeError
        else let s = te_sets ex ! setIndex in
          if weight s = 0 \<or> reps s = 0
          then Inr ([Toast ''Invalid Set'' True], False, tr)
          else Inr ([Toast ''Set Complete!'' False], True,
                 tr\<lparr> exercises :=
                       map_at exerciseIndex
                         (\<lambda>ex. ex\<lparr> te_sets :=
                            map_at setIndex (\<lambda>s. s\<lparr>completed := True\<rparr>) (te_sets ex) \<rparr>)
                         (exercises tr),
                     restTimer := 90,
                     isResting := True \<rparr>))"

text \<open>One tick of the one-second interval that runs while \<^verbatim>\<open>isResting && restTimer > 0\<close>.\<close>

definition rest_tick :: "tracker \<Rightarrow> tracker" where
  "rest_tick tr =
     (if isResting tr \<and> 0 < restTimer tr
      then (if restTimer tr \<le> 1 then tr\<lparr> isResting := False, restTimer := 0 \<rparr>
            else tr\<lparr> restTimer := restTimer tr - 1 \<rparr>)
      else tr)"

text \<open>The session object that \<^verbatim>\<open>saveWorkout\<close> builds; \<open>date\<close> is \<^verbatim>\<open>new Date().toISOString()\<close>.\<close>

definition build_session :: "string \<Rightarrow> tracker \<Rightarrow> WorkoutSession" where
  "build_session date tr =
     \<lparr> ws_id = sessionId tr,
       ws_date = date,
       ws_workoutType = workoutType tr,
       ws_exercises =
         map (\<lambda>ex.
                \<lparr> se_exerciseId = te_id ex,
                  se_name = te_name ex,
                  se_sets = map (\<lambda>s. \<lparr> weight = weight s, reps = reps s,
                                          completed = completed s \<rparr>) (te_sets ex) \<rparr>)
             (exercises tr),
       ws_completed = True \<rparr>"

text \<open>The object \<^verbatim>\<open>updatedSplit\<close> of \<^verbatim>\<open>saveWorkout\<close> (and of \<^verbatim>\<open>handleCompleteWorkout\<close>).\<close>

definition completed_split :: "string \<Rightarrow> WorkoutSplit \<Rightarrow> WorkoutSplit" where
  "completed_split date split =
     split\<lparr> currentDay := next_day split, lastWorkoutDate := Some date \<rparr>"

text \<open>
  \<^verbatim>\<open>saveWorkout\<close>. \<open>date1\<close> and \<open>date2\<close> are its two readings of the clock, \<open>onComplete\<close>
  is the prop of that name, which the component that renders the tracker passes in.
\<close>

definition saveWorkout ::
  "string \<Rightarrow> string \<Rightarrow> (app_store \<Rightarrow> app_store) \<Rightarrow> tracker \<Rightarrow> app_store
     \<Rightarrow> toast list \<times> app_store" where
  "saveWorkout date1 date2 onComplete tr st =
     (let session = build_session date1 tr;
          st1 = saveWorkoutSession session st;
          st2 = updateStreak st1;
          (active, st3) = getActiveSplit st2;
          st4 = (case active of
                   Some active_split \<Rightarrow> updateSplit (completed_split date2 active_split) st3
                 | None \<Rightarrow> st3);
          st5 = clearAutoSave (''workout-'' @ workoutType tr) st4;
          st6 = onComplete st5
      in ([Toast ''Workout Saved!'' False], st6))"



subsection \<open>The page (src/pages/Index.tsx)\<close>

text \<open>
  \<^verbatim>\<open>handleCompleteWorkout\<close>, the \<^verbatim>\<open>onComplete\<close> that the page gives the tracker it
  renders. It also sets the page's view to the dashboard, which is no part of the store.
\<close>

definition handleCompleteWorkout :: "string \<Rightarrow> 'd store \<Rightarrow> 'd store" where
  "handleCompleteWorkout date st =
     (case workoutSplit st of
        Some split \<Rightarrow> st\<lparr>workoutSplit := Some (json_split (completed_split date split))\<rparr>
      | None \<Rightarrow> st)"


subsection \<open>WorkoutSplitManager\<close>

record split_manager =
  splits :: "WorkoutSplit list"
  sm_activeSplit :: "string option"

definition loadSplits :: "split_manager \<Rightarrow> 'd store \<Rightarrow> split_manager \<times> 'd store" where
  "loadSplits sm st =
     (let (loadedSplits, st1) = getWorkoutSplits st;
          sm1 = sm\<lparr>splits := loadedSplits\<rparr>
      in if truthy (activeSplit st1) then (sm1\<lparr>sm_activeSplit := activeSplit st1\<rparr>, st1)
         else (case loadedSplits of
                 [] \<Rightarrow> (sm1, st1)
               | first # _ \<Rightarrow>
                   (sm1\<lparr>sm_activeSplit := Some (s_id first)\<rparr>, setActiveSplit (s_id first) st1)))"

definition saveSplits ::
  "WorkoutSplit list \<Rightarrow> split_manager \<Rightarrow> 'd store \<Rightarrow> split_manager \<times> 'd store" where
  "saveSplits newSplits sm st = (sm\<lparr>splits := newSplits\<rparr>, saveWorkoutSplits newSplits st)"

definition setActiveWorkoutSplit ::
  "string \<Rightarrow> split_manager \<Rightarrow> 'd store \<Rightarrow> toast list \<times> split_manager \<times> 'd store" where
  "setActiveWorkoutSplit splitId sm st =
     ([Toast ''Split Activated!'' False],
      sm\<lparr>sm_activeSplit := Some splitId\<rparr>, setActiveSplit splitId st)"

text \<open>The object \<^verbatim>\<open>newSplit\<close> of \<^verbatim>\<open>skipDay\<close>.\<close>

definition skipped_split :: "WorkoutSplit \<Rightarrow> WorkoutSplit" where
  "skipped_split split = split\<lparr> currentDay := next_day split \<rparr>"

definition skipDay ::
  "string \<Rightarrow> split_manager \<Rightarrow> 'd store \<Rightarrow> toast list \<times> split_manager \<times> 'd store" where
  "skipDay splitId sm st =
     (case find (\<lambda>s. s_id s = splitId) (splits sm) of
        Some updatedSplit \<Rightarrow>
          (let newSplit = skipped_split updatedSplit
           in ([Toast ''Day Skipped'' False],
               sm\<lparr>splits := map (\<lambda>s. if s_id s = splitId then newSplit else s) (splits sm)\<rparr>,
               updateSplit newSplit st))
      | None \<Rightarrow> ([], sm, st))"

definition deleteSplit ::
  "string \<Rightarrow> split_manager \<Rightarrow> 'd store \<Rightarrow> toast list \<times> split_manager \<times> 'd store" where
  "deleteSplit splitId sm st =
     (let newSplits = filter (\<lambda>split. s_id split \<noteq> splitId) (splits sm);
          (sm1, st1) = saveSplits newSplits sm st;
          (sm2, st2) = (if sm_activeSplit sm = Some splitId
                        then (sm1\<lparr>sm_activeSplit := None\<rparr>,
                              st1\<lparr>activeSplit := None, workoutSplit := None\<rparr>)
                        else (sm1, st1))
      in ([Toast ''Split Deleted'' False], sm2, st2))"

text \<open>
  The delete button of a split's card: \<^verbatim>\<open>onClick={() => deleteSplit(split.id)}\<close> with
  \<^verbatim>\<open>disabled={splits.length === 1}\<close>. A click on a disabled button runs no handler. The
  button is the only caller of \<^verbatim>\<open>deleteSplit\<close>.
\<close>

definition delete_button ::
  "string \<Rightarrow> split_manager \<Rightarrow> 'd store \<Rightarrow> toast list \<times> split_manager \<times> 'd store" where
  "delete_button splitId sm st =
     (if length (splits sm) = 1 then ([], sm, st) else deleteSplit splitId sm st)"

subsection \<open>ExerciseManager\<close>

record exercise_manager =
  em_workoutType :: string
  template :: "WorkoutTemplate option"

definition saveTemplate ::
  "WorkoutTemplate \<Rightarrow> int \<Rightarrow> exercise_manager \<Rightarrow> app_store
     \<Rightarrow> toast list \<times> exercise_manager \<times> app_store" where
  "saveTemplate updatedTemplate now em st =
     (let st1 = updateWorkoutTemplate (em_workoutType em) updatedTemplate st;
          st2 = autoSave (''exercise-manager-'' @ em_workoutType em)
                  (TemplateDraft updatedTemplate) now st1
      in ([Toast ''Exercises Updated!'' False], em\<lparr>template := Some updatedTemplate\<rparr>, st2))"

definition deleteExercise ::
  "string \<Rightarrow> int \<Rightarrow> exercise_manager \<Rightarrow> app_store
     \<Rightarrow> toast list \<times> exercise_manager \<times> app_store" where
  "deleteExercise exerciseId now em st =
     (case template em of
        None \<Rightarrow> ([], em, st)
      | Some t \<Rightarrow>
          (let updatedTemplate = t\<lparr>t_exercises := filter (\<lambda>ex. e_id ex \<noteq> exerciseId) (t_exercises t)\<rparr>;
               (toasts, em1, st1) = saveTemplate updatedTemplate now em st
           in (toasts @ [Toast ''Exercise Deleted'' False], em1, st1)))"

definition resetToDefault ::
  "int \<Rightarrow> exercise_manager \<Rightarrow> app_store \<Rightarrow> toast list \<times> exercise_manager \<times> app_store" where
  "resetToDefault now em st =
     (let (templates, st1) = getWorkoutTemplates st
      in case map_of templates (em_workoutType em) of
           Some defaultTemplate \<Rightarrow>
             (let (toasts, em1, st2) = saveTemplate defaultTemplate now em st1
              in (toasts @ [Toast ''Reset Complete'' False], em1, st2))
         | None \<Rightarrow> ([], em, st1))"

subsection \<open>ProgressTracker\<close>

record progress =
  streak :: int
  strongestLifts :: "(string \<times> rat \<times> int) list"
  totalWorkouts :: nat



definition tracked_exercises :: "string list" where
  "tracked_exercises =
     [''Bench Press'', ''Deadlift'', ''Squats'', ''Overhead Press'', ''Pull-ups'',
      ''Barbell Rows'', ''Incline Dumbbell Press'', ''Romanian Deadlift'']"

text \<open>\<^verbatim>\<open>loadProgressData\<close> reads the streak and, for each of the eight names, the key
  \<^verbatim>\<open>lastWorkout-<name>\<close>.\<close>

definition loadProgressData :: "progress \<Rightarrow> 'd store \<Rightarrow> progress" where
  "loadProgressData pr st =
     (let lifts = concat (map (\<lambda>ex.
                     case lastWorkout st ex of
                       Some data \<Rightarrow> [(ex, h_weight data, h_reps data)]
                     | None \<Rightarrow> []) tracked_exercises)
      in \<lparr> streak = (case workoutStreak st of Some n \<Rightarrow> n | None \<Rightarrow> streak pr),
           strongestLifts = lifts,
           totalWorkouts = length lifts \<rparr>)"

definition getStreakColor :: "int \<Rightarrow> string" where
  "getStreakColor n =
     (if n \<ge> 30 then ''streak-gold''
      else if n \<ge> 14 then ''success''
      else if n \<ge> 7 then ''accent''
      else ''primary'')"

text \<open>The labels without the emoji that ends each of them.\<close>

definition getStreakMessage :: "int \<Rightarrow> string" where
  "getStreakMessage n =
     (if n \<ge> 30 then ''Champion Level!''
      else if n \<ge> 14 then ''On Fire!''
      else if n \<ge> 7 then ''Building Momentum!''
      else if n \<ge> 3 then ''Getting Started!''
      else ''Every Journey Begins!'')"

text \<open>
  The Epley formula \<^verbatim>\<open>Math.round(weight * (1 + reps / 30))\<close>: the quotient, the sum and
  the product are each rounded to a double. The weight and the reps are doubles already,
  which \<open>to_double\<close> leaves as they are.
\<close>

definition calculateOneRepMax :: "rat \<Rightarrow> int \<Rightarrow> double" where
  "calculateOneRepMax w r =
     Math_round (dmul (to_double w)
                      (dadd (Finite 1) (ddiv (to_double (of_int r)) (Finite 30))))"



section \<open>Notions used in the statements\<close>

text \<open>The history entry that \<^verbatim>\<open>saveWorkoutSession\<close> writes for a set.\<close>

definition history_of :: "string \<Rightarrow> SessionSet \<Rightarrow> HistoryEntry" where
  "history_of date s = \<lparr> h_weight = weight s, h_reps = reps s, h_date = date \<rparr>"

text \<open>
  The completed sets of a session, each with the name of its exercise, in the order of
  the exercises and, within an exercise, of its sets.
\<close>

definition completed_sets :: "WorkoutSession \<Rightarrow> (string \<times> SessionSet) list" where
  "completed_sets session =
     concat (map (\<lambda>ex. map (\<lambda>s. (se_name ex, s)) (filter completed (se_sets ex)))
                 (ws_exercises session))"

definition completed_sets_of :: "string \<Rightarrow> WorkoutSession \<Rightarrow> SessionSet list" where
  "completed_sets_of exerciseName session =
     map snd (filter (\<lambda>(n, s). n = exerciseName) (completed_sets session))"

text \<open>One overwrite of the history entry of an exercise name.\<close>

definition overwrite ::
  "string \<Rightarrow> string \<times> SessionSet \<Rightarrow> (string \<rightharpoonup> HistoryEntry) \<Rightarrow> (string \<rightharpoonup> HistoryEntry)" where
  "overwrite date w h = h(fst w \<mapsto> history_of date (snd w))"

text \<open>The session list after \<^verbatim>\<open>saveWorkoutSession\<close>: replaced in place, or appended.\<close>

definition upsert :: "WorkoutSession \<Rightarrow> WorkoutSession list \<Rightarrow> WorkoutSession list" where
  "upsert session sessions =
     (case findIndex (\<lambda>s. ws_id s = ws_id session) sessions of
        Some existingIndex \<Rightarrow> sessions[existingIndex := session]
      | None \<Rightarrow> sessions @ [session])"

text \<open>
  The two ways in which the program advances a split: \<^verbatim>\<open>skipDay\<close>, and the completion
  of a session at a given date.
\<close>

datatype advance = Skip | Complete string

fun advance_split :: "advance \<Rightarrow> WorkoutSplit \<Rightarrow> WorkoutSplit" where
  "advance_split Skip split = skipped_split split"
| "advance_split (Complete date) split = completed_split date split"



subsection \<open>Example states\<close>

text \<open>
  The store of a new browser profile after the split manager has been opened once: the
  default splits are stored and the first of them is active.
\<close>

definition fresh_store :: app_store where
  "fresh_store = snd (loadSplits \<lparr> splits = [], sm_activeSplit = None \<rparr> empty_store)"

text \<open>A Push session with one exercise whose only set, 100 kg for 5 reps, is completed.\<close>

definition bench_tracker :: tracker where
  "bench_tracker =
     \<lparr> workoutType = ''Push'',
       exercises = [\<lparr> te_id = ''bench-press'', te_name = ''Bench Press'',
                      te_sets = [\<lparr> weight = 100, reps = 5, completed = True,
                                   set_id = ''set-0-0'' \<rparr>],
                      defaultSets = 1, lastWeight = None, lastReps = None \<rparr>],
       currentExerciseIndex = 0, restTimer = 90, isResting = True,
       sessionId = ''session-1'' \<rparr>"

text \<open>A session that has just started: a filled-in set and an empty one, none completed.\<close>

definition started_tracker :: tracker where
  "started_tracker =
     \<lparr> workoutType = ''Push'',
       exercises = [\<lparr> te_id = ''bench-press'', te_name = ''Bench Press'',
                      te_sets = [\<lparr> weight = 100, reps = 5, completed = False,
                                   set_id = ''set-0-0'' \<rparr>,
                                 \<lparr> weight = 0, reps = 0, completed = False,
                                   set_id = ''set-0-1'' \<rparr>],
                      defaultSets = 2, lastWeight = None, lastReps = None \<rparr>],
       currentExerciseIndex = 0, restTimer = 0, isResting = False,
       sessionId = ''session-2'' \<rparr>"







text \<open>
  The exercise manager of the Push workout on a new profile, and its state and store
  after the user has deleted the first exercise, Bench Press.
\<close>

definition push_manager :: exercise_manager where
  "push_manager = \<lparr> em_workoutType = ''Push'', template = map_of defaultTemplates ''Push'' \<rparr>"

definition edited_push :: "exercise_manager \<times> app_store" where
  "edited_push = snd (deleteExercise ''bench-press'' 1000 push_manager
                        (snd (getWorkoutTemplates empty_store)))"

section \<open>Properties\<close>

lemma fixed_keys_apart:
  "distinct fixed_keys"
  "exercise_key a \<notin> set fixed_keys"
  "lastWorkout_key a \<notin> set fixed_keys"
  "autosave_key a \<notin> set fixed_keys"
  "exercise_key a \<noteq> lastWorkout_key b"
  "exercise_key a \<noteq> autosave_key b"
  "lastWorkout_key a \<noteq> autosave_key b"
  "exercise_key a = exercise_key b \<longleftrightarrow> a = b"
  "lastWorkout_key a = lastWorkout_key b \<longleftrightarrow> a = b"
  "autosave_key a = autosave_key b \<longleftrightarrow> a = b"
  by (simp_all add: fixed_keys_def exercise_key_def lastWorkout_key_def autosave_key_def)

subsection \<open>Auto-save slots expire after 24 hours\<close>

text \<open>
  Claim C7. For every key and payload, \<^verbatim>\<open>getAutoSave(key)\<close> called at time \<open>t\<close> after
  \<^verbatim>\<open>autoSave(key, data)\<close> at time \<open>t0\<close> returns the payload exactly when
  \<open>t - t0\<close> is less than 24 hours (in milliseconds) and nothing otherwise: nothing at
  exactly 24 hours, nothing one millisecond later. It returns nothing when there is no
  slot under the key.
\<close>

theorem getAutoSave_within_24h:
  "getAutoSave key t (autoSave key data t0 st) =
     (if t - t0 < 24 * 60 * 60 * 1000 then Some data else None)
   \<and> getAutoSave key (t0 + 24 * 60 * 60 * 1000) (autoSave key data t0 st) = None
   \<and> getAutoSave key (t0 + 24 * 60 * 60 * 1000 + 1) (autoSave key data t0 st) = None
   \<and> getAutoSave key (t0 + 24 * 60 * 60 * 1000 - 1) (autoSave key data t0 st) = Some data
   \<and> (autosave st key = None \<longrightarrow> getAutoSave key t st = None)"
  by (simp add: getAutoSave_def autoSave_def)

theorem getAutoSave_within_24h_witness:
  "getAutoSave ''workout-Push'' 86400500 (autoSave ''workout-Push'' (7::nat) 500 empty_store) = None
   \<and> getAutoSave ''workout-Push'' 86400499 (autoSave ''workout-Push'' (7::nat) 500 empty_store) = Some 7
   \<and> autosave (empty_store :: nat store) ''workout-Push'' = None
   \<and> getAutoSave ''workout-Push'' 3 (empty_store :: nat store) = None"
  using getAutoSave_within_24h [of "''workout-Push''" 3 "7::nat" 500 empty_store]
  by (simp add: empty_store_def)

subsection \<open>Streak tiers\<close>

text \<open>
  Claim C9, as the spec states it: a streak of 6 selects the base tier, 7 the
  "momentum" tier, 14 the "on fire" tier and 30 the "champion" tier. The label has
  five tiers: its base tier, the last branch of \<^verbatim>\<open>getStreakMessage\<close>, is the one of the
  streaks below 3, and a streak of 6 selects the tier above it.
\<close>

theorem streak_6_label_not_base:
  "getStreakMessage 6 \<noteq> ''Every Journey Begins!'' \<and> getStreakMessage 6 \<noteq> getStreakMessage 0"
  by (simp add: getStreakMessage_def)

text \<open>
  Claim C9, amended. A streak of 6 selects the base colour and the "getting started"
  label, whose tier starts at 3 (the base label is the one of the streaks below 3); 7
  selects the "momentum" tier, 14 the "on fire" tier and 30 the "champion" tier, of the
  label and of the colour. Each tier is exactly the range between two thresholds.
\<close>

theorem streak_tiers:
  "getStreakColor 6 = ''primary'' \<and> getStreakMessage 6 = ''Getting Started!''
   \<and> getStreakColor 7 = ''accent'' \<and> getStreakMessage 7 = ''Building Momentum!''
   \<and> getStreakColor 14 = ''success'' \<and> getStreakMessage 14 = ''On Fire!''
   \<and> getStreakColor 30 = ''streak-gold'' \<and> getStreakMessage 30 = ''Champion Level!''
   \<and> (getStreakMessage n = ''Every Journey Begins!'') = (n < 3)
   \<and> (getStreakMessage n = ''Getting Started!'') = (3 \<le> n \<and> n < 7)
   \<and> (getStreakMessage n = ''Building Momentum!'') = (7 \<le> n \<and> n < 14)
   \<and> (getStreakMessage n = ''On Fire!'') = (14 \<le> n \<and> n < 30)
   \<and> (getStreakMessage n = ''Champion Level!'') = (30 \<le> n)
   \<and> (getStreakColor n = ''primary'') = (n < 7)
   \<and> (getStreakColor n = ''accent'') = (7 \<le> n \<and> n < 14)
   \<and> (getStreakColor n = ''success'') = (14 \<le> n \<and> n < 30)
   \<and> (getStreakColor n = ''streak-gold'') = (30 \<le> n)"
  by (simp add: getStreakMessage_def getStreakColor_def)

subsection \<open>Activating a split that is not in the list\<close>

text \<open>
  Without a stored list \<^verbatim>\<open>setActiveSplit\<close> first stores the default one, as every reader
  of the list does.
\<close>

lemma setActiveSplit_no_list:
  "workoutSplits st = None \<Longrightarrow> find (\<lambda>s. s_id s = splitId) defaultSplits = None \<Longrightarrow>
   setActiveSplit splitId st =
     st\<lparr>activeSplit := Some splitId, workoutSplits := Some (map json_split defaultSplits)\<rparr>"
  by (simp add: setActiveSplit_def getWorkoutSplits_def saveWorkoutSplits_def)

text \<open>
  Claim C10. For every split id that is not the id of a split of the stored list,
  \<^verbatim>\<open>setActiveSplit\<close> still writes the id under \<^verbatim>\<open>activeSplit\<close> and changes nothing else:
  the copy under \<^verbatim>\<open>workoutSplit\<close> and every other key keep their values. The call
  returns normally, and the reference it leaves denotes no split.
\<close>

theorem setActiveSplit_dangling:
  assumes "workoutSplits st = Some stored" and "splitId \<notin> s_id ` set stored"
  shows "setActiveSplit splitId st = st\<lparr>activeSplit := Some splitId\<rparr>
    \<and> activeSplit (setActiveSplit splitId st) = Some splitId
    \<and> workoutSplit (setActiveSplit splitId st) = workoutSplit st
    \<and> fst (getActiveSplit (setActiveSplit splitId st)) = None"
proof -
  from assms(2) have nf: "find (\<lambda>s. s_id s = splitId) stored = None"
    by (auto simp add: find_None_iff)
  have nf': "find (\<lambda>s. Some (s_id s) = Some splitId) stored = None"
    using nf by simp
  from assms(1) nf have eq: "setActiveSplit splitId st = st\<lparr>activeSplit := Some splitId\<rparr>"
    by (simp add: setActiveSplit_def getWorkoutSplits_def)
  show ?thesis
    unfolding eq using assms(1) nf'
    by (simp add: getActiveSplit_def getWorkoutSplits_def)
qed

theorem setActiveSplit_dangling_witness:
  "workoutSplits (empty_store\<lparr>workoutSplits := Some defaultSplits, activeSplit := Some ''1'',
       workoutSplit := Some (hd defaultSplits)\<rparr> :: nat store) = Some defaultSplits
   \<and> ''9'' \<notin> s_id ` set defaultSplits
   \<and> activeSplit (setActiveSplit ''9'' (empty_store\<lparr>workoutSplits := Some defaultSplits,
       activeSplit := Some ''1'', workoutSplit := Some (hd defaultSplits)\<rparr> :: nat store)) = Some ''9''
   \<and> workoutSplit (setActiveSplit ''9'' (empty_store\<lparr>workoutSplits := Some defaultSplits,
       activeSplit := Some ''1'', workoutSplit := Some (hd defaultSplits)\<rparr> :: nat store))
       = Some (hd defaultSplits)"
proof -
  let ?st = "empty_store\<lparr>workoutSplits := Some defaultSplits, activeSplit := Some ''1'',
       workoutSplit := Some (hd defaultSplits)\<rparr> :: nat store"
  have h1: "workoutSplits ?st = Some defaultSplits" by simp
  have h2: "''9'' \<notin> s_id ` set defaultSplits" by (simp add: defaultSplits_def)
  from setActiveSplit_dangling [OF h1 h2] h1 h2 show ?thesis by simp
qed

subsection \<open>What a saved session leaves in the exercise history\<close>

lemma fold_record_set_eq:
  "fold (record_set date n) ss st =
     st\<lparr>exercise := fold (overwrite date) (map (\<lambda>s. (n, s)) (filter completed ss)) (exercise st)\<rparr>"
  by (induction ss arbitrary: st)
     (simp_all add: record_set_def saveExerciseHistory_def overwrite_def history_of_def)

lemma fold_record_exercise_eq:
  "fold (record_exercise date) exs st =
     st\<lparr>exercise := fold (overwrite date)
       (concat (map (\<lambda>ex. map (\<lambda>s. (se_name ex, s)) (filter completed (se_sets ex))) exs))
       (exercise st)\<rparr>"
  by (induction exs arbitrary: st)
     (simp_all add: record_exercise_def fold_record_set_eq)

text \<open>\<^verbatim>\<open>saveWorkoutSession\<close> writes the session list and history entries, nothing else.\<close>

lemma saveWorkoutSession_eq:
  "saveWorkoutSession session st =
     st\<lparr>workoutSessions := Some (upsert session (getWorkoutSessions st)),
        exercise := fold (overwrite (ws_date session)) (completed_sets session) (exercise st)\<rparr>"
  by (simp add: saveWorkoutSession_def Let_def fold_record_exercise_eq completed_sets_def upsert_def)

lemma fold_overwrite_last:
  "fold (overwrite date) ws h n =
     (if map snd (filter (\<lambda>(m, s). m = n) ws) = [] then h n
      else Some (history_of date (last (map snd (filter (\<lambda>(m, s). m = n) ws)))))"
  by (induction ws rule: rev_induct) (auto simp add: overwrite_def)

text \<open>
  Claim C8. When a session is saved, the history is overwritten once for each completed
  set, in the order of the exercises and of their sets. So for every exercise name the
  entry after the save is the one of the last completed set processed under that name
  (its weight, its reps and the date of the session), whether or not it is the
  heaviest; a name with no completed set keeps the entry it had.
\<close>

theorem saveWorkoutSession_last_completed_set:
  "exercise (saveWorkoutSession session st) =
     fold (overwrite (ws_date session)) (completed_sets session) (exercise st)
   \<and> getExerciseHistory exerciseName (saveWorkoutSession session st) =
     (if completed_sets_of exerciseName session = [] then getExerciseHistory exerciseName st
      else Some (history_of (ws_date session) (last (completed_sets_of exerciseName session))))"
proof -
  have writes: "exercise (saveWorkoutSession session st) =
     fold (overwrite (ws_date session)) (completed_sets session) (exercise st)"
    by (simp add: saveWorkoutSession_eq)
  show ?thesis
    unfolding getExerciseHistory_def writes completed_sets_of_def
    by (simp add: fold_overwrite_last)
qed

text \<open>A session with the sets 100 x 5 and then 60 x 8 of one exercise records 60 x 8.\<close>

theorem saveWorkoutSession_last_completed_set_witness:
  "getExerciseHistory ''Squats''
     (saveWorkoutSession
        \<lparr> ws_id = ''session-3'', ws_date = ''2024-05-01'', ws_workoutType = ''Legs'',
          ws_exercises =
            [\<lparr> se_exerciseId = ''squats'', se_name = ''Squats'',
               se_sets = [\<lparr> weight = 100, reps = 5, completed = True \<rparr>,
                          \<lparr> weight = 60, reps = 8, completed = True \<rparr>,
                          \<lparr> weight = 120, reps = 1, completed = False \<rparr>] \<rparr>,
             \<lparr> se_exerciseId = ''lunges'', se_name = ''Lunges'',
               se_sets = [\<lparr> weight = 20, reps = 10, completed = False \<rparr>] \<rparr>],
          ws_completed = True \<rparr>
        (empty_store :: nat store))
     = Some \<lparr> h_weight = 60, h_reps = 8, h_date = ''2024-05-01'' \<rparr>
   \<and> getExerciseHistory ''Lunges''
     (saveWorkoutSession
        \<lparr> ws_id = ''session-3'', ws_date = ''2024-05-01'', ws_workoutType = ''Legs'',
          ws_exercises =
            [\<lparr> se_exerciseId = ''squats'', se_name = ''Squats'',
               se_sets = [\<lparr> weight = 100, reps = 5, completed = True \<rparr>,
                          \<lparr> weight = 60, reps = 8, completed = True \<rparr>,
                          \<lparr> weight = 120, reps = 1, completed = False \<rparr>] \<rparr>,
             \<lparr> se_exerciseId = ''lunges'', se_name = ''Lunges'',
               se_sets = [\<lparr> weight = 20, reps = 10, completed = False \<rparr>] \<rparr>],
          ws_completed = True \<rparr>
        (empty_store :: nat store))
     = None"
proof -
  let ?session = "\<lparr> ws_id = ''session-3'', ws_date = ''2024-05-01'', ws_workoutType = ''Legs'',
          ws_exercises =
            [\<lparr> se_exerciseId = ''squats'', se_name = ''Squats'',
               se_sets = [\<lparr> weight = 100, reps = 5, completed = True \<rparr>,
                          \<lparr> weight = 60, reps = 8, completed = True \<rparr>,
                          \<lparr> weight = 120, reps = 1, completed = False \<rparr>] \<rparr>,
             \<lparr> se_exerciseId = ''lunges'', se_name = ''Lunges'',
               se_sets = [\<lparr> weight = 20, reps = 10, completed = False \<rparr>] \<rparr>],
          ws_completed = True \<rparr>"
  have squats: "completed_sets_of ''Squats'' ?session =
      [\<lparr> weight = 100, reps = 5, completed = True \<rparr>, \<lparr> weight = 60, reps = 8, completed = True \<rparr>]"
    by (simp add: completed_sets_of_def completed_sets_def)
  have lunges: "completed_sets_of ''Lunges'' ?session = []"
    by (simp add: completed_sets_of_def completed_sets_def)
  have none: "getExerciseHistory ''Lunges'' (empty_store :: nat store) = None"
    by (simp add: getExerciseHistory_def empty_store_def)
  from saveWorkoutSession_last_completed_set [of ?session "empty_store :: nat store" "''Squats''"]
    saveWorkoutSession_last_completed_set [of ?session "empty_store :: nat store" "''Lunges''"]
    squats lunges none
  show ?thesis by (simp add: history_of_def)
qed

subsection \<open>Completing a set\<close>

lemma map_at_list_update:
  "map_at k f xs = (if k < length xs then xs[k := f (xs ! k)] else xs)"
  by (rule nth_equalityI) (auto simp add: map_at_def nth_enumerate_eq nth_list_update)

text \<open>
  Claim C6. For every set of the session whose weight is 0 or whose reps are 0,
  \<^verbatim>\<open>completeSet\<close> answers with the "Invalid Set" failure and changes nothing: the
  tracker is the same afterwards (the set's flag, the rest timer and everything else),
  and no auto-save is scheduled. For every set with positive weight and positive reps it
  sets the completed flag of exactly that set and starts a rest of 90 seconds.
\<close>

theorem completeSet_validation:
  assumes "exerciseIndex < length (exercises tr)"
    and "setIndex < length (te_sets (exercises tr ! exerciseIndex))"
  shows "(weight (te_sets (exercises tr ! exerciseIndex) ! setIndex) = 0
          \<or> reps (te_sets (exercises tr ! exerciseIndex) ! setIndex) = 0
        \<longrightarrow> completeSet exerciseIndex setIndex tr = Inr ([Toast ''Invalid Set'' True], False, tr))
    \<and> (0 < weight (te_sets (exercises tr ! exerciseIndex) ! setIndex)
          \<and> 0 < reps (te_sets (exercises tr ! exerciseIndex) ! setIndex)
        \<longrightarrow> completeSet exerciseIndex setIndex tr =
              Inr ([Toast ''Set Complete!'' False], True,
                   tr\<lparr> exercises := (exercises tr)[exerciseIndex :=
                          (exercises tr ! exerciseIndex)\<lparr> te_sets :=
                             (te_sets (exercises tr ! exerciseIndex))[setIndex :=
                                (te_sets (exercises tr ! exerciseIndex) ! setIndex)
                                  \<lparr>completed := True\<rparr>] \<rparr>],
                       restTimer := 90, isResting := True \<rparr>))"
  using assms by (simp add: completeSet_def Let_def map_at_list_update)

theorem completeSet_validation_witness:
  "0 < length (exercises started_tracker)
   \<and> 1 < length (te_sets (exercises started_tracker ! 0))
   \<and> weight (te_sets (exercises started_tracker ! 0) ! 1) = 0
   \<and> completeSet 0 1 started_tracker = Inr ([Toast ''Invalid Set'' True], False, started_tracker)
   \<and> 0 < weight (te_sets (exercises started_tracker ! 0) ! 0)
   \<and> 0 < reps (te_sets (exercises started_tracker ! 0) ! 0)
   \<and> completeSet 0 0 started_tracker =
       Inr ([Toast ''Set Complete!'' False], True,
            started_tracker\<lparr> exercises :=
              [\<lparr> te_id = ''bench-press'', te_name = ''Bench Press'',
                 te_sets = [\<lparr> weight = 100, reps = 5, completed = True, set_id = ''set-0-0'' \<rparr>,
                            \<lparr> weight = 0, reps = 0, completed = False, set_id = ''set-0-1'' \<rparr>],
                 defaultSets = 2, lastWeight = None, lastReps = None \<rparr>],
              restTimer := 90, isResting := True \<rparr>)"
proof -
  have e: "0 < length (exercises started_tracker)"
    by (simp add: started_tracker_def)
  have s1: "1 < length (te_sets (exercises started_tracker ! 0))"
    and s0: "0 < length (te_sets (exercises started_tracker ! 0))"
    by (simp_all add: started_tracker_def)
  from completeSet_validation [OF e s1] completeSet_validation [OF e s0]
  show ?thesis by (simp add: started_tracker_def)
qed

text \<open>The rest that a completed set starts ends by itself, after as many ticks as it has seconds.\<close>

lemma rest_tick_countdown:
  "isResting tr \<Longrightarrow> restTimer tr = int n \<Longrightarrow> 0 < n \<Longrightarrow>
   (rest_tick ^^ n) tr = tr\<lparr> isResting := False, restTimer := 0 \<rparr>"
proof (induction n arbitrary: tr)
  case 0
  then show ?case by simp
next
  case (Suc n)
  show ?case
  proof (cases "n = 0")
    case True
    with Suc.prems show ?thesis by (simp add: rest_tick_def)
  next
    case False
    have step: "rest_tick tr = tr\<lparr> restTimer := int n \<rparr>"
      using Suc.prems False by (simp add: rest_tick_def)
    have "(rest_tick ^^ n) (tr\<lparr> restTimer := int n \<rparr>)
            = tr\<lparr> restTimer := int n \<rparr>\<lparr> isResting := False, restTimer := 0 \<rparr>"
      using Suc.IH [of "tr\<lparr> restTimer := int n \<rparr>"] Suc.prems(1) False by simp
    then show ?thesis by (simp add: funpow_Suc_right step del: funpow.simps)
  qed
qed

subsection \<open>Advancing a split\<close>

lemma next_day_in_range:
  assumes "currentDay sp = Num i" "0 \<le> i" "i < int (length (days sp))"
  shows "next_day sp = Num ((i + 1) mod int (length (days sp)))"
  using assms by (auto simp add: next_day_def js_rem_def)

lemma json_split_Num: "currentDay s = Num i \<Longrightarrow> json_split s = s"
  by (simp add: json_split_def)

lemma s_id_json_split [simp]: "s_id (json_split s) = s_id s"
  by (simp add: json_split_def split: jsnum.splits)

lemma s_id_completed_split [simp]: "s_id (completed_split d s) = s_id s"
  by (simp add: completed_split_def)

lemma advance_split_days [simp]: "days (advance_split a sp) = days sp"
  by (cases a) (simp_all add: skipped_split_def completed_split_def)

lemma advance_split_day:
  assumes "currentDay sp = Num i" "0 \<le> i" "i < int (length (days sp))"
  shows "currentDay (advance_split a sp) = Num ((i + 1) mod int (length (days sp)))"
  using next_day_in_range [OF assms]
  by (cases a) (simp_all add: skipped_split_def completed_split_def)

lemma fold_advance_days [simp]: "days (fold advance_split as sp) = days sp"
  by (induction as arbitrary: sp) simp_all

lemma fold_advance_day:
  assumes "currentDay sp = Num i" "0 \<le> i" "i < int (length (days sp))"
  shows "currentDay (fold advance_split as sp)
           = Num ((i + int (length as)) mod int (length (days sp)))"
  using assms
proof (induction as arbitrary: sp i)
  case Nil
  then show ?case by simp
next
  case (Cons a as)
  let ?n = "int (length (days sp))"
  have pos: "0 < ?n" using Cons.prems by linarith
  have d: "currentDay (advance_split a sp) = Num ((i + 1) mod ?n)"
    using advance_split_day [OF Cons.prems] .
  have "currentDay (fold advance_split as (advance_split a sp)) =
          Num (((i + 1) mod ?n + int (length as)) mod ?n)"
    using Cons.IH [OF d] pos by simp
  then show ?case by (simp add: mod_simps algebra_simps)
qed

text \<open>Finding a split in a list, before and after a write.\<close>

lemma findIndex_find:
  "find P xs = Some x \<Longrightarrow> \<exists>k. findIndex P xs = Some k \<and> xs ! k = x"
  by (induction xs) (auto split: if_splits)

lemma find_list_update:
  "findIndex P xs = Some k \<Longrightarrow> P u \<Longrightarrow> find P (xs[k := u]) = Some u"
proof (induction xs arbitrary: k)
  case Nil
  then show ?case by simp
next
  case (Cons x xs)
  then show ?case by (cases k) (auto split: if_splits option.splits)
qed

lemma find_map_json_split:
  "find (\<lambda>s. s_id s = a) (map json_split xs) = map_option json_split (find (\<lambda>s. s_id s = a) xs)"
  by (induction xs) (auto simp add: json_split_def split: jsnum.splits)

lemma find_replace:
  "find (\<lambda>s. s_id s = a) xs = Some sp \<Longrightarrow> s_id u = a \<Longrightarrow>
   find (\<lambda>s. s_id s = a) (map (\<lambda>s. if s_id s = a then u else s) xs) = Some u"
  by (induction xs) (auto split: if_splits)

text \<open>
  \<^verbatim>\<open>skipDay\<close> puts the split it builds into the list of the component and into the
  stored list.
\<close>

lemma skipDay_stores:
  assumes "find (\<lambda>s. s_id s = splitId) (splits sm) = Some sp"
    and "workoutSplits st = Some stored"
    and "find (\<lambda>s. s_id s = splitId) stored = Some sp'"
  shows "find (\<lambda>s. s_id s = splitId) (splits (fst (snd (skipDay splitId sm st))))
           = Some (skipped_split sp)"
    and "map_option (find (\<lambda>s. s_id s = splitId))
           (workoutSplits (snd (snd (skipDay splitId sm st))))
           = Some (Some (json_split (skipped_split sp)))"
proof -
  from assms(1) have ida: "s_id sp = splitId" by (auto dest: find_Some_iff [THEN iffD1])
  then have idu: "s_id (skipped_split sp) = splitId" by (simp add: skipped_split_def)
  show "find (\<lambda>s. s_id s = splitId) (splits (fst (snd (skipDay splitId sm st))))
           = Some (skipped_split sp)"
    using assms(1) find_replace [OF assms(1) idu] by (simp add: skipDay_def Let_def)
  from findIndex_find [OF assms(3)] obtain k where
    k: "findIndex (\<lambda>s. s_id s = splitId) stored = Some k" by blast
  have fnd: "find (\<lambda>s. s_id s = splitId) (stored[k := skipped_split sp])
               = Some (skipped_split sp)"
    using find_list_update [OF k] idu by simp
  show "map_option (find (\<lambda>s. s_id s = splitId))
           (workoutSplits (snd (snd (skipDay splitId sm st))))
           = Some (Some (json_split (skipped_split sp)))"
    using assms(1,2) k idu fnd
    by (simp add: skipDay_def Let_def updateSplit_def getWorkoutSplits_def saveWorkoutSplits_def
        find_map_json_split)
qed

subsection \<open>Deleting a split\<close>

lemma fresh_store_eq:
  "fresh_store = empty_store\<lparr> workoutSplits := Some defaultSplits, activeSplit := Some ''1'',
      workoutSplit := Some (hd defaultSplits) \<rparr>"
  by (simp add: fresh_store_def loadSplits_def getWorkoutSplits_def saveWorkoutSplits_def
      empty_store_def truthy_def defaultSplits_def json_split_def setActiveSplit_def)

text \<open>
  When the manager is opened it shows the stored list, and its active split is the
  stored reference.
\<close>

lemma loadSplits_shows_stored:
  assumes "workoutSplits st = Some stored"
  shows "splits (fst (loadSplits sm st)) = stored"
    and "workoutSplits (snd (loadSplits sm st)) = Some stored"
    and "truthy (activeSplit st) \<Longrightarrow> sm_activeSplit (fst (loadSplits sm st)) = activeSplit st"
    and "truthy (activeSplit st) \<Longrightarrow> snd (loadSplits sm st) = st"
  using assms
  by (auto simp add: loadSplits_def getWorkoutSplits_def setActiveSplit_def Let_def
      split: list.splits option.splits)

text \<open>
  Claim C4. Deleting a split is rejected when exactly one split remains: the delete
  button is disabled then, so neither the component nor the store changes, and the
  stored list is the same (also for a manager that has just been opened on a stored
  list of one split). When the deleted split is the active one, the deletion removes
  both the key \<^verbatim>\<open>activeSplit\<close> and the copy under \<^verbatim>\<open>workoutSplit\<close>, and the component has
  no active split.
\<close>

theorem delete_button_guard:
  "(length (splits sm) = 1 \<longrightarrow> delete_button splitId sm st = ([], sm, st))
   \<and> (workoutSplits st = Some [only] \<longrightarrow>
        delete_button splitId (fst (loadSplits sm st)) (snd (loadSplits sm st))
          = ([], fst (loadSplits sm st), snd (loadSplits sm st))
        \<and> workoutSplits (snd (loadSplits sm st)) = Some [only])
   \<and> (length (splits sm) \<noteq> 1 \<and> sm_activeSplit sm = Some splitId \<longrightarrow>
        delete_button splitId sm st =
          ([Toast ''Split Deleted'' False],
           sm\<lparr> splits := filter (\<lambda>split. s_id split \<noteq> splitId) (splits sm),
               sm_activeSplit := None \<rparr>,
           st\<lparr> workoutSplits :=
                 Some (map json_split (filter (\<lambda>split. s_id split \<noteq> splitId) (splits sm))),
               activeSplit := None, workoutSplit := None \<rparr>))"
proof -
  have disabled: "length (splits sm) = 1 \<longrightarrow> delete_button splitId sm st = ([], sm, st)"
    by (simp add: delete_button_def)
  have opened: "workoutSplits st = Some [only] \<longrightarrow>
        delete_button splitId (fst (loadSplits sm st)) (snd (loadSplits sm st))
          = ([], fst (loadSplits sm st), snd (loadSplits sm st))
        \<and> workoutSplits (snd (loadSplits sm st)) = Some [only]"
    using loadSplits_shows_stored(1,2) [of st "[only]" sm]
    by (simp add: delete_button_def)
  have active: "length (splits sm) \<noteq> 1 \<and> sm_activeSplit sm = Some splitId \<longrightarrow>
        delete_button splitId sm st =
          ([Toast ''Split Deleted'' False],
           sm\<lparr> splits := filter (\<lambda>split. s_id split \<noteq> splitId) (splits sm),
               sm_activeSplit := None \<rparr>,
           st\<lparr> workoutSplits :=
                 Some (map json_split (filter (\<lambda>split. s_id split \<noteq> splitId) (splits sm))),
               activeSplit := None, workoutSplit := None \<rparr>)"
    by (simp add: delete_button_def deleteSplit_def saveSplits_def saveWorkoutSplits_def Let_def)
  from disabled opened active show ?thesis by blast
qed

theorem delete_button_guard_witness:
  "length (splits \<lparr> splits = [hd defaultSplits], sm_activeSplit = Some ''1'' \<rparr>) = 1
   \<and> delete_button ''1'' \<lparr> splits = [hd defaultSplits], sm_activeSplit = Some ''1'' \<rparr>
        (empty_store\<lparr> workoutSplits := Some [hd defaultSplits], activeSplit := Some ''1'' \<rparr>
           :: nat store)
       = ([], \<lparr> splits = [hd defaultSplits], sm_activeSplit = Some ''1'' \<rparr>,
          empty_store\<lparr> workoutSplits := Some [hd defaultSplits], activeSplit := Some ''1'' \<rparr>)
   \<and> workoutSplits (empty_store\<lparr> workoutSplits := Some [hd defaultSplits],
         activeSplit := Some ''1'' \<rparr> :: nat store) = Some [hd defaultSplits]
   \<and> workoutSplits (snd (loadSplits \<lparr> splits = [], sm_activeSplit = None \<rparr>
         (empty_store\<lparr> workoutSplits := Some [hd defaultSplits],
            activeSplit := Some ''1'' \<rparr> :: nat store))) = Some [hd defaultSplits]
   \<and> length (splits \<lparr> splits = defaultSplits, sm_activeSplit = Some ''1'' \<rparr>) \<noteq> 1
   \<and> sm_activeSplit \<lparr> splits = defaultSplits, sm_activeSplit = Some ''1'' \<rparr> = Some ''1''
   \<and> activeSplit (snd (snd (delete_button ''1''
        \<lparr> splits = defaultSplits, sm_activeSplit = Some ''1'' \<rparr> fresh_store))) = None
   \<and> workoutSplit (snd (snd (delete_button ''1''
        \<lparr> splits = defaultSplits, sm_activeSplit = Some ''1'' \<rparr> fresh_store))) = None
   \<and> workoutSplits (snd (snd (delete_button ''1''
        \<lparr> splits = defaultSplits, sm_activeSplit = Some ''1'' \<rparr> fresh_store)))
       = Some (tl defaultSplits)"
proof -
  let ?one = "\<lparr> splits = [hd defaultSplits], sm_activeSplit = Some ''1'' \<rparr>"
  let ?st1 = "empty_store\<lparr> workoutSplits := Some [hd defaultSplits],
                 activeSplit := Some ''1'' \<rparr> :: nat store"
  let ?three = "\<lparr> splits = defaultSplits, sm_activeSplit = Some ''1'' \<rparr>"
  have h1: "length (splits ?one) = 1" by simp
  have h3: "length (splits ?three) \<noteq> 1" "sm_activeSplit ?three = Some ''1''"
    by (simp_all add: defaultSplits_def)
  have rest: "map json_split (filter (\<lambda>split. s_id split \<noteq> ''1'') defaultSplits)
                = tl defaultSplits"
    by (simp add: defaultSplits_def json_split_def)
  have h2: "workoutSplits ?st1 = Some [hd defaultSplits]" by simp
  from delete_button_guard [of ?one "''1''" ?st1]
    delete_button_guard [of "\<lparr> splits = [], sm_activeSplit = None \<rparr>" "''1''" ?st1 "hd defaultSplits"]
    delete_button_guard [of ?three "''1''" fresh_store]
    h1 h2 h3 rest
  show ?thesis by simp
qed

subsection \<open>Saving a session with the storage-based tracker\<close>

text \<open>The streak and the key family \<^verbatim>\<open>lastWorkout-<name>\<close> through the steps of a save.\<close>

lemma workoutStreak_updateSplit [simp]: "workoutStreak (updateSplit u st) = workoutStreak st"
  by (simp add: updateSplit_def getWorkoutSplits_def saveWorkoutSplits_def Let_def
      split: option.splits)


lemma workoutStreak_handleCompleteWorkout [simp]:
  "workoutStreak (handleCompleteWorkout d st) = workoutStreak st"
  by (simp add: handleCompleteWorkout_def split: option.splits)

lemma lastWorkout_updateSplit [simp]: "lastWorkout (updateSplit u st) = lastWorkout st"
  by (simp add: updateSplit_def getWorkoutSplits_def saveWorkoutSplits_def Let_def
      split: option.splits)

lemma lastWorkout_getActiveSplit [simp]: "lastWorkout (snd (getActiveSplit st)) = lastWorkout st"
  by (simp add: getActiveSplit_def getWorkoutSplits_def saveWorkoutSplits_def Let_def
      split: option.splits)

lemma lastWorkout_handleCompleteWorkout [simp]:
  "lastWorkout (handleCompleteWorkout d st) = lastWorkout st"
  by (simp add: handleCompleteWorkout_def split: option.splits)

text \<open>
  \<^verbatim>\<open>onComplete\<close> is the last thing that \<^verbatim>\<open>saveWorkout\<close> does to the store: it is called on
  the store that the save leaves, which is the result of the save when the callback
  leaves the store alone.
\<close>

lemma saveWorkout_callback:
  "snd (saveWorkout date1 date2 onComplete tr st)
     = onComplete (snd (saveWorkout date1 date2 (\<lambda>s. s) tr st))"
  by (simp add: saveWorkout_def Let_def split: prod.splits)


text \<open>No step of this save writes a key \<^verbatim>\<open>lastWorkout-<name>\<close>.\<close>

lemma lastWorkout_saveWorkout:
  "lastWorkout (snd (saveWorkout date1 date2 (\<lambda>s. s) tr st)) = lastWorkout st"
proof -
  let ?st2 = "updateStreak (saveWorkoutSession (build_session date1 tr) st)"
  have a: "lastWorkout ?st2 = lastWorkout st"
    by (simp add: updateStreak_def saveWorkoutSession_eq)
  obtain active st3 where g: "getActiveSplit ?st2 = (active, st3)"
    by (cases "getActiveSplit ?st2")
  have b: "lastWorkout st3 = lastWorkout st"
    using lastWorkout_getActiveSplit [of ?st2] g a by simp
  show ?thesis
    using g b
    by (simp add: saveWorkout_def Let_def clearAutoSave_def split: option.splits)
qed

text \<open>The store after a save, when the active split is in the stored list.\<close>

lemma saveWorkout_eq:
  assumes "workoutSplits st = Some stored" "activeSplit st = Some a" "a \<noteq> []"
    and "find (\<lambda>s. s_id s = a) stored = Some sp"
  shows "\<exists>k. findIndex (\<lambda>s. s_id s = a) stored = Some k \<and> stored ! k = sp \<and>
     snd (saveWorkout date1 date2 (\<lambda>s. s) tr st) =
     st\<lparr>workoutSessions := Some (upsert (build_session date1 tr) (getWorkoutSessions st)),
        exercise := fold (overwrite date1) (completed_sets (build_session date1 tr)) (exercise st),
        workoutStreak := Some (getStreak st + 1),
        workoutSplits := Some (map json_split (stored[k := completed_split date2 sp])),
        workoutSplit := Some (json_split (completed_split date2 sp)),
        autosave := (autosave st)(''workout-'' @ workoutType tr := None)\<rparr>"
proof -
  from findIndex_find [OF assms(4)] obtain k where
    k: "findIndex (\<lambda>s. s_id s = a) stored = Some k" "stored ! k = sp" by blast
  from assms(4) have ida: "s_id sp = a" by (auto dest: find_Some_iff [THEN iffD1])
  have f: "find (\<lambda>s. Some (s_id s) = Some a) stored = Some sp" using assms(4) by simp
  have "snd (saveWorkout date1 date2 (\<lambda>s. s) tr st) =
     st\<lparr>workoutSessions := Some (upsert (build_session date1 tr) (getWorkoutSessions st)),
        exercise := fold (overwrite date1) (completed_sets (build_session date1 tr)) (exercise st),
        workoutStreak := Some (getStreak st + 1),
        workoutSplits := Some (map json_split (stored[k := completed_split date2 sp])),
        workoutSplit := Some (json_split (completed_split date2 sp)),
        autosave := (autosave st)(''workout-'' @ workoutType tr := None)\<rparr>"
    using assms(1,2,3) f k ida
    by (simp add: saveWorkout_def saveWorkoutSession_eq updateStreak_def getStreak_def
        getActiveSplit_def truthy_def getWorkoutSplits_def updateSplit_def saveWorkoutSplits_def
        clearAutoSave_def build_session_def Let_def)
  with k show ?thesis by blast
qed

text \<open>
  With an active split of \<open>N\<close> days at day \<open>i\<close>, the save leaves the split of the list
  and the copy under \<^verbatim>\<open>workoutSplit\<close> both as the one advanced split, at day
  \<open>(i + 1) mod N\<close>.
\<close>

lemma saveWorkout_advances:
  assumes "workoutSplits st = Some stored" "activeSplit st = Some a" "a \<noteq> []"
    and "find (\<lambda>s. s_id s = a) stored = Some sp"
    and "currentDay sp = Num i" "0 \<le> i" "i < int (length (days sp))"
  shows "fst (getActiveSplit (snd (saveWorkout date1 date2 (\<lambda>s. s) tr st)))
           = Some (completed_split date2 sp)"
    and "workoutSplit (snd (saveWorkout date1 date2 (\<lambda>s. s) tr st))
           = Some (completed_split date2 sp)"
    and "activeSplit (snd (saveWorkout date1 date2 (\<lambda>s. s) tr st)) = Some a"
    and "currentDay (completed_split date2 sp) = Num ((i + 1) mod int (length (days sp)))"
proof -
  let ?once = "completed_split date2 sp"
  from saveWorkout_eq [OF assms(1-4), of date1 date2 tr] obtain k where
    k: "findIndex (\<lambda>s. s_id s = a) stored = Some k" "stored ! k = sp"
    and eq: "snd (saveWorkout date1 date2 (\<lambda>s. s) tr st) =
     st\<lparr>workoutSessions := Some (upsert (build_session date1 tr) (getWorkoutSessions st)),
        exercise := fold (overwrite date1) (completed_sets (build_session date1 tr)) (exercise st),
        workoutStreak := Some (getStreak st + 1),
        workoutSplits := Some (map json_split (stored[k := completed_split date2 sp])),
        workoutSplit := Some (json_split (completed_split date2 sp)),
        autosave := (autosave st)(''workout-'' @ workoutType tr := None)\<rparr>"
    by blast
  from assms(4) have ida: "s_id sp = a" by (auto dest: find_Some_iff [THEN iffD1])
  show once: "currentDay ?once = Num ((i + 1) mod int (length (days sp)))"
    using next_day_in_range [OF assms(5-7)] by (simp add: completed_split_def)
  have j1: "json_split ?once = ?once" using once by (rule json_split_Num)
  have fnd: "find (\<lambda>s. s_id s = a) (stored[k := ?once]) = Some ?once"
    using find_list_update [OF k(1)] ida by simp
  show "workoutSplit (snd (saveWorkout date1 date2 (\<lambda>s. s) tr st)) = Some ?once"
    unfolding eq using j1 by simp
  show "activeSplit (snd (saveWorkout date1 date2 (\<lambda>s. s) tr st)) = Some a"
    unfolding eq using assms(2) by simp
  have "find (\<lambda>s. Some (s_id s) = Some a) (map json_split (stored[k := ?once]))
          = Some (json_split ?once)"
    using fnd by (simp add: find_map_json_split)
  then show "fst (getActiveSplit (snd (saveWorkout date1 date2 (\<lambda>s. s) tr st))) = Some ?once"
    unfolding eq using assms(2,3) j1
    by (simp add: getActiveSplit_def truthy_def getWorkoutSplits_def)
qed

text \<open>\<^verbatim>\<open>handleCompleteWorkout\<close> writes the copy only: the active split of the list stays.\<close>

lemma getActiveSplit_handleCompleteWorkout:
  "fst (getActiveSplit (handleCompleteWorkout d st)) = fst (getActiveSplit st)"
  by (simp add: handleCompleteWorkout_def getActiveSplit_def getWorkoutSplits_def Let_def
      split: option.splits)

text \<open>
  No file of the repository passes the page's \<^verbatim>\<open>handleCompleteWorkout\<close> to this tracker
  (the page renders the older one). A page that did would have the copy advanced a
  second time, to day \<open>(i + 2) mod N\<close>, while the split of the list is at
  \<open>(i + 1) mod N\<close>.
\<close>

lemma saveWorkout_with_handleCompleteWorkout:
  assumes "workoutSplits st = Some stored" "activeSplit st = Some a" "a \<noteq> []"
    and "find (\<lambda>s. s_id s = a) stored = Some sp"
    and "currentDay sp = Num i" "0 \<le> i" "i < int (length (days sp))"
  shows "map_option currentDay
           (workoutSplit (snd (saveWorkout date1 date2 (handleCompleteWorkout date3) tr st)))
           = Some (Num ((i + 2) mod int (length (days sp))))"
proof -
  let ?n = "int (length (days sp))"
  let ?once = "completed_split date2 sp"
  have pos: "0 < ?n" using assms(6,7) by linarith
  have once: "currentDay ?once = Num ((i + 1) mod ?n)" "days ?once = days sp"
    using next_day_in_range [OF assms(5-7)] by (simp_all add: completed_split_def)
  have r: "0 \<le> (i + 1) mod ?n" "(i + 1) mod ?n < int (length (days ?once))"
    using pos once(2) by simp_all
  have twice: "currentDay (completed_split date3 ?once) = Num (((i + 1) mod ?n + 1) mod ?n)"
    using next_day_in_range [OF once(1) r] once(2) by (simp add: completed_split_def)
  have "((i + 1) mod ?n + 1) mod ?n = (i + 2) mod ?n"
    by (simp add: mod_simps add.commute)
  with twice have twice': "currentDay (completed_split date3 ?once) = Num ((i + 2) mod ?n)"
    by simp
  show ?thesis
    unfolding saveWorkout_callback [of date1 date2 "handleCompleteWorkout date3"]
    using saveWorkout_advances(2) [OF assms, of date1 date2 tr] twice'
    by (simp add: handleCompleteWorkout_def json_split_Num)
qed

subsection \<open>The cycle of a split's days\<close>

text \<open>
  Claim C5. For every split with \<open>N \<ge> 1\<close> days whose current-day index \<open>i\<close> is in
  \<open>[0, N)\<close>, the split that \<^verbatim>\<open>skipDay\<close> builds and the one that the completion of a
  session builds have the index \<open>(i + 1) mod N\<close>, which is in \<open>[0, N)\<close> again. After
  any sequence of advances the index is \<open>(i + k) mod N\<close>, with \<open>k\<close> the number of
  advances; \<open>N\<close> advances lead back to \<open>i\<close>; and from the index 0 the first \<open>N\<close> states
  have the indices \<open>0, 1, ..., N - 1\<close>, so that 0 comes back after exactly \<open>N\<close> advances.
  These splits are the ones that end up in the lists: after \<^verbatim>\<open>skipDay\<close> the split of the
  component's list and of the stored list is at \<open>(i + 1) mod N\<close>, and so is the active
  split of the stored list after \<^verbatim>\<open>saveWorkout\<close>, before its callback and after the
  callback \<^verbatim>\<open>handleCompleteWorkout\<close>.
\<close>

theorem advance_cycles:
  assumes "currentDay sp = Num i" and "0 \<le> i" and "i < int (length (days sp))"
  shows "currentDay (skipped_split sp) = Num ((i + 1) mod int (length (days sp)))
    \<and> currentDay (completed_split date sp) = Num ((i + 1) mod int (length (days sp)))
    \<and> 0 \<le> (i + 1) mod int (length (days sp))
    \<and> (i + 1) mod int (length (days sp)) < int (length (days sp))
    \<and> currentDay (fold advance_split as sp)
        = Num ((i + int (length as)) mod int (length (days sp)))
    \<and> currentDay (fold advance_split (replicate (length (days sp)) a) sp) = Num i
    \<and> map (\<lambda>k. currentDay (fold advance_split (replicate k a) (sp\<lparr>currentDay := Num 0\<rparr>)))
          [0..<length (days sp)]
        = map (\<lambda>k. Num (int k)) [0..<length (days sp)]
    \<and> (find (\<lambda>s. s_id s = splitId) (splits sm) = Some sp
         \<and> workoutSplits st = Some stored
         \<and> find (\<lambda>s. s_id s = splitId) stored = Some sp' \<longrightarrow>
           map_option currentDay
             (find (\<lambda>s. s_id s = splitId) (splits (fst (snd (skipDay splitId sm st)))))
             = Some (Num ((i + 1) mod int (length (days sp))))
         \<and> map_option (map_option currentDay \<circ> find (\<lambda>s. s_id s = splitId))
             (workoutSplits (snd (snd (skipDay splitId sm st))))
             = Some (Some (Num ((i + 1) mod int (length (days sp))))))
    \<and> (workoutSplits st = Some stored \<and> activeSplit st = Some (s_id sp) \<and> s_id sp \<noteq> []
         \<and> find (\<lambda>s. s_id s = s_id sp) stored = Some sp \<longrightarrow>
           map_option currentDay
             (fst (getActiveSplit
                (snd (saveWorkout date1 date2 (handleCompleteWorkout date3) tr st))))
             = Some (Num ((i + 1) mod int (length (days sp))))
         \<and> map_option currentDay
             (fst (getActiveSplit (snd (saveWorkout date1 date2 (\<lambda>s. s) tr st))))
             = Some (Num ((i + 1) mod int (length (days sp)))))"
proof -
  let ?n = "int (length (days sp))"
  have pos: "0 < ?n" using assms by linarith
  have one: "currentDay (skipped_split sp) = Num ((i + 1) mod ?n)"
    using advance_split_day [OF assms, of Skip] by simp
  have two: "currentDay (completed_split date sp) = Num ((i + 1) mod ?n)"
    using advance_split_day [OF assms, of "Complete date"] by simp
  have inside: "0 \<le> (i + 1) mod ?n" "(i + 1) mod ?n < ?n"
    using pos by simp_all
  have many: "currentDay (fold advance_split as sp) = Num ((i + int (length as)) mod ?n)"
    using fold_advance_day [OF assms] .
  have again: "currentDay (fold advance_split (replicate (length (days sp)) a) sp) = Num i"
    using fold_advance_day [OF assms, of "replicate (length (days sp)) a"] assms(2,3) by simp
  have z: "currentDay (sp\<lparr>currentDay := Num 0\<rparr>) = Num 0"
    "(0::int) \<le> 0" "0 < int (length (days (sp\<lparr>currentDay := Num 0\<rparr>)))"
    using pos by simp_all
  have visit:
    "map (\<lambda>k. currentDay (fold advance_split (replicate k a) (sp\<lparr>currentDay := Num 0\<rparr>)))
       [0..<length (days sp)] = map (\<lambda>k. Num (int k)) [0..<length (days sp)]"
  proof (rule map_cong [OF refl])
    fix k assume "k \<in> set [0..<length (days sp)]"
    then have "int k < ?n" by simp
    then show "currentDay (fold advance_split (replicate k a) (sp\<lparr>currentDay := Num 0\<rparr>))
                 = Num (int k)"
      using fold_advance_day [OF z, of "replicate k a"] by simp
  qed
  have skip: "find (\<lambda>s. s_id s = splitId) (splits sm) = Some sp
         \<and> workoutSplits st = Some stored
         \<and> find (\<lambda>s. s_id s = splitId) stored = Some sp' \<longrightarrow>
           map_option currentDay
             (find (\<lambda>s. s_id s = splitId) (splits (fst (snd (skipDay splitId sm st)))))
             = Some (Num ((i + 1) mod ?n))
         \<and> map_option (map_option currentDay \<circ> find (\<lambda>s. s_id s = splitId))
             (workoutSplits (snd (snd (skipDay splitId sm st))))
             = Some (Some (Num ((i + 1) mod ?n)))"
  proof
    assume h: "find (\<lambda>s. s_id s = splitId) (splits sm) = Some sp
         \<and> workoutSplits st = Some stored
         \<and> find (\<lambda>s. s_id s = splitId) stored = Some sp'"
    then have h1: "find (\<lambda>s. s_id s = splitId) (splits sm) = Some sp"
      and h2: "workoutSplits st = Some stored"
      and h3: "find (\<lambda>s. s_id s = splitId) stored = Some sp'" by simp_all
    have j: "json_split (skipped_split sp) = skipped_split sp"
      using one by (rule json_split_Num)
    obtain ws where ws: "workoutSplits (snd (snd (skipDay splitId sm st))) = Some ws"
      "find (\<lambda>s. s_id s = splitId) ws = Some (json_split (skipped_split sp))"
      using skipDay_stores(2) [OF h1 h2 h3] by (auto simp add: map_option_case split: option.splits)
    show "map_option currentDay
             (find (\<lambda>s. s_id s = splitId) (splits (fst (snd (skipDay splitId sm st)))))
             = Some (Num ((i + 1) mod ?n))
         \<and> map_option (map_option currentDay \<circ> find (\<lambda>s. s_id s = splitId))
             (workoutSplits (snd (snd (skipDay splitId sm st))))
             = Some (Some (Num ((i + 1) mod ?n)))"
      using skipDay_stores(1) [OF h1 h2 h3] ws j one by simp
  qed
  have saved: "workoutSplits st = Some stored \<and> activeSplit st = Some (s_id sp) \<and> s_id sp \<noteq> []
         \<and> find (\<lambda>s. s_id s = s_id sp) stored = Some sp \<longrightarrow>
           map_option currentDay
             (fst (getActiveSplit
                (snd (saveWorkout date1 date2 (handleCompleteWorkout date3) tr st))))
             = Some (Num ((i + 1) mod ?n))
         \<and> map_option currentDay
             (fst (getActiveSplit (snd (saveWorkout date1 date2 (\<lambda>s. s) tr st))))
             = Some (Num ((i + 1) mod ?n))"
  proof
    assume h: "workoutSplits st = Some stored \<and> activeSplit st = Some (s_id sp) \<and> s_id sp \<noteq> []
         \<and> find (\<lambda>s. s_id s = s_id sp) stored = Some sp"
    then have h1: "workoutSplits st = Some stored" and h2: "activeSplit st = Some (s_id sp)"
      and h3: "s_id sp \<noteq> []" and h4: "find (\<lambda>s. s_id s = s_id sp) stored = Some sp"
      by simp_all
    have own: "map_option currentDay
             (fst (getActiveSplit (snd (saveWorkout date1 date2 (\<lambda>s. s) tr st))))
             = Some (Num ((i + 1) mod ?n))"
      using saveWorkout_advances(1) [OF h1 h2 h3 h4 assms, of date1 date2 tr]
        saveWorkout_advances(4) [OF h1 h2 h3 h4 assms, of date2]
      by simp
    show "map_option currentDay
             (fst (getActiveSplit
                (snd (saveWorkout date1 date2 (handleCompleteWorkout date3) tr st))))
             = Some (Num ((i + 1) mod ?n))
         \<and> map_option currentDay
             (fst (getActiveSplit (snd (saveWorkout date1 date2 (\<lambda>s. s) tr st))))
             = Some (Num ((i + 1) mod ?n))"
      unfolding saveWorkout_callback [of date1 date2 "handleCompleteWorkout date3"]
        getActiveSplit_handleCompleteWorkout
      using own by simp
  qed
  from one two inside many again visit skip saved show ?thesis by blast
qed

theorem advance_cycles_witness:
  "currentDay (hd defaultSplits) = Num 0 \<and> (0::int) \<le> 0
   \<and> 0 < int (length (days (hd defaultSplits)))
   \<and> currentDay (skipped_split (hd defaultSplits)) = Num 1
   \<and> currentDay (fold advance_split [Skip, Complete ''d'', Skip] (hd defaultSplits)) = Num 3
   \<and> currentDay (fold advance_split (replicate 7 Skip) (hd defaultSplits)) = Num 0
   \<and> find (\<lambda>s. s_id s = ''1'') (splits \<lparr> splits = defaultSplits, sm_activeSplit = Some ''1'' \<rparr>)
       = Some (hd defaultSplits)
   \<and> workoutSplits fresh_store = Some defaultSplits
   \<and> activeSplit fresh_store = Some (s_id (hd defaultSplits))
   \<and> map_option currentDay
        (find (\<lambda>s. s_id s = ''1'')
           (splits (fst (snd (skipDay ''1''
              \<lparr> splits = defaultSplits, sm_activeSplit = Some ''1'' \<rparr> fresh_store)))))
       = Some (Num 1)
   \<and> map_option currentDay
        (fst (getActiveSplit
           (snd (saveWorkout ''d1'' ''d2'' (handleCompleteWorkout ''d3'') bench_tracker
              fresh_store))))
       = Some (Num 1)"
proof -
  let ?sm = "\<lparr> splits = defaultSplits, sm_activeSplit = Some ''1'' \<rparr>"
  have h: "currentDay (hd defaultSplits) = Num 0" "(0::int) \<le> 0"
    "0 < int (length (days (hd defaultSplits)))"
    by (simp_all add: defaultSplits_def)
  have n: "length (days (hd defaultSplits)) = 7" by (simp add: defaultSplits_def)
  have f: "find (\<lambda>s. s_id s = ''1'') (splits ?sm) = Some (hd defaultSplits)"
    "find (\<lambda>s. s_id s = ''1'') defaultSplits = Some (hd defaultSplits)"
    "s_id (hd defaultSplits) = ''1''"
    by (simp_all add: defaultSplits_def)
  have st: "workoutSplits fresh_store = Some defaultSplits"
    "activeSplit fresh_store = Some ''1''"
    by (simp_all add: fresh_store_eq)
  from advance_cycles [OF h, of "''d''" "[Skip, Complete ''d'', Skip]" Skip "''1''" ?sm
      fresh_store defaultSplits "hd defaultSplits" "''d1''" "''d2''" "''d3''" bench_tracker]
    h n f st
  show ?thesis by simp
qed

subsection \<open>Saving a session on the page\<close>






subsection \<open>A save advances the active split once\<close>



subsection \<open>The one-rep max in the progress view\<close>



text \<open>The rounding of the doubles shows at a tie: 22.5 kg for 12 reps give 31, not 32.\<close>

lemma calculateOneRepMax_tie: "calculateOneRepMax (45 / 2) 12 = Finite 31"
  by code_simp


lemma set_insert_by [simp]: "set (insert_by c x ys) = insert x (set ys)"
  by (induction ys) auto

lemma set_sort_by [simp]: "set (sort_by c xs) = set xs"
  by (induction xs) (simp_all add: sort_by_def)

lemma length_insert_by [simp]: "length (insert_by c x ys) = Suc (length ys)"
  by (induction ys) auto

lemma length_sort_by [simp]: "length (sort_by c xs) = length xs"
  by (induction xs) (simp_all add: sort_by_def)








text \<open>
  The view does not read the keys \<^verbatim>\<open>exercise-<name>\<close>, under which the storage utility
  keeps the history: a save of the storage-based tracker leaves its lifts as they were.
\<close>

lemma loadProgressData_after_saveWorkout:
  "strongestLifts (loadProgressData pr (snd (saveWorkout date1 date2 (\<lambda>s. s) tr st)))
     = strongestLifts (loadProgressData pr st)"
  by (simp add: loadProgressData_def Let_def lastWorkout_saveWorkout)




subsection \<open>Resetting a template\<close>

lemma update_same:
  "map_of ts k = Some v \<Longrightarrow> AList.update k v ts = ts"
  by (induction ts) (auto split: if_splits)

text \<open>
  \<^verbatim>\<open>resetToDefault\<close> reads the mapping with \<^verbatim>\<open>getWorkoutTemplates\<close>, which gives the
  default mapping only when none is stored: a stored mapping is written back as it is.
\<close>

lemma resetToDefault_templates:
  "workoutTemplates (snd (snd (resetToDefault now em st))) =
     Some (case workoutTemplates st of Some ts \<Rightarrow> ts | None \<Rightarrow> defaultTemplates)"
  by (auto simp add: resetToDefault_def getWorkoutTemplates_def saveTemplate_def
      updateWorkoutTemplate_def saveWorkoutTemplates_def autoSave_def Let_def update_same
      split: option.splits)

text \<open>
  Claim C3. The spec has \<^verbatim>\<open>resetToDefault\<close> put the exercises of the built-in default
  template back for a name of the default set. After the user has deleted Bench Press
  from the Push template, \<^verbatim>\<open>resetToDefault\<close> announces "Reset Complete" and the stored
  Push template still has the four exercises that were left, not the five of the
  default.
\<close>

theorem resetToDefault_keeps_edited_template:
  "map_option (map e_name \<circ> t_exercises) (fst (getWorkoutTemplate ''Push'' (snd edited_push)))
     = Some [''Overhead Press'', ''Incline Dumbbell Press'', ''Tricep Dips'', ''Lateral Raises'']
   \<and> map_option (map e_name \<circ> t_exercises)
        (fst (getWorkoutTemplate ''Push''
           (snd (snd (resetToDefault 2000 (fst edited_push) (snd edited_push))))))
     = Some [''Overhead Press'', ''Incline Dumbbell Press'', ''Tricep Dips'', ''Lateral Raises'']
   \<and> map_option (map e_name \<circ> t_exercises) (map_of defaultTemplates ''Push'')
     = Some [''Bench Press'', ''Overhead Press'', ''Incline Dumbbell Press'', ''Tricep Dips'',
             ''Lateral Raises'']
   \<and> fst (resetToDefault 2000 (fst edited_push) (snd edited_push))
     = [Toast ''Exercises Updated!'' False, Toast ''Reset Complete'' False]"
  by (simp add: edited_push_def push_manager_def deleteExercise_def saveTemplate_def
      updateWorkoutTemplate_def getWorkoutTemplates_def getWorkoutTemplate_def
      saveWorkoutTemplates_def autoSave_def resetToDefault_def empty_store_def
      defaultTemplates_def mk_exercise_def Let_def)

end
